theory Spec2Isabelle
  imports Main
begin

section \<open>JavaScript values used by index.js\<close>

text \<open>
  A JavaScript string is modelled as an Isabelle \<open>string\<close>: one \<open>char\<close> per UTF-16 code
  unit, for code units below 256. For a 7-bit message the code units are the bytes of the
  stored object. An optional property (one that may be \<open>undefined\<close>) is an \<open>option\<close>.
\<close>

abbreviation CR :: char where "CR \<equiv> CHR 0x0D"
abbreviation LF :: char where "LF \<equiv> CHR 0x0A"

text \<open>Errors thrown or rejected: \<open>new Error(message)\<close>, and the engine's \<open>TypeError\<close>.\<close>

datatype error = Error string | TypeError

text \<open>Truthiness of a value that is a string or \<open>undefined\<close>.\<close>

fun truthy_str :: "string option \<Rightarrow> bool" where
  "truthy_str None = False"
| "truthy_str (Some s) = (s \<noteq> [])"

text \<open>String concatenation turns \<open>undefined\<close> into the text \<open>undefined\<close>.\<close>

fun toString :: "string option \<Rightarrow> string" where
  "toString None = ''undefined''"
| "toString (Some s) = s"

text \<open>\<open>String.prototype.toLowerCase\<close> on code units below 256: A-Z and the Latin-1 capitals.\<close>

definition toLowerCase_char :: "char \<Rightarrow> char" where
  "toLowerCase_char c =
     (let n = (of_char c :: nat) in
      if (65 \<le> n \<and> n \<le> 90) \<or> (192 \<le> n \<and> n \<le> 222 \<and> n \<noteq> 215)
      then char_of (n + 32) else c)"

definition toLowerCase :: "string \<Rightarrow> string" where
  "toLowerCase s = map toLowerCase_char s"

text \<open>\<open>s.split(sep)\<close> for a one-character separator; the result is never empty.\<close>

fun split_from :: "char \<Rightarrow> string \<Rightarrow> string \<Rightarrow> string list" where
  "split_from sep cur [] = [rev cur]"
| "split_from sep cur (c # cs) =
     (if c = sep then rev cur # split_from sep [] cs else split_from sep (c # cur) cs)"

definition split_js :: "char \<Rightarrow> string \<Rightarrow> string list" where
  "split_js sep s = split_from sep [] s"

text \<open>Array indexing \<open>xs[i]\<close>: \<open>undefined\<close> out of range.\<close>

fun index_js :: "'a list \<Rightarrow> nat \<Rightarrow> 'a option" where
  "index_js [] i = None"
| "index_js (x # xs) 0 = Some x"
| "index_js (x # xs) (Suc i) = index_js xs i"

section \<open>Configuration\<close>

text \<open>
  The \<open>config\<close> object (index.js lines 8-57). \<open>forwardMapping\<close> is a plain object whose own
  properties map a key to an array of addresses.
\<close>

record config =
  fromEmail :: "string option"
  subjectPrefix :: "string option"
  toEmail :: "string option"
  emailBucket :: string
  emailKeyPrefix :: string
  allowPlusSign :: bool
  forwardMapping :: "string \<rightharpoonup> string list"

definition defaultConfig :: config where
  "defaultConfig = \<lparr>
     fromEmail = Some ''noreply@example.com'',
     subjectPrefix = Some '''',
     toEmail = None,
     emailBucket = ''your-s3-bucket-name'',
     emailKeyPrefix = ''emailsPrefix/'',
     allowPlusSign = True,
     forwardMapping = [
       ''info@example.com'' \<mapsto> [''example.john@example.com'', ''example.jen@example.com''],
       ''abuse@example.com'' \<mapsto> [''example.jim@example.com''],
       ''@example.com'' \<mapsto> [''example.john@example.com'']] \<rparr>"

text \<open>
  Property access \<open>obj[key]\<close> on a plain object: an own property if there is one, else
  the member of \<open>Object.prototype\<close> of that name (a function, or for \<open>__proto__\<close> the
  prototype object), else \<open>undefined\<close>.
\<close>

datatype jsval = Undefined | Array "string list" | ProtoMember

definition objectPrototypeKeys :: "string list" where
  "objectPrototypeKeys =
     [''constructor'', ''__defineGetter__'', ''__defineSetter__'', ''hasOwnProperty'',
      ''__lookupGetter__'', ''__lookupSetter__'', ''isPrototypeOf'', ''propertyIsEnumerable'',
      ''toString'', ''valueOf'', ''__proto__'', ''toLocaleString'']"

definition getProp :: "(string \<rightharpoonup> string list) \<Rightarrow> string \<Rightarrow> jsval" where
  "getProp obj key =
     (case obj key of
        Some ds \<Rightarrow> Array ds
      | None \<Rightarrow> if key \<in> set objectPrototypeKeys then ProtoMember else Undefined)"

text \<open>Arrays, functions and objects are truthy; \<open>undefined\<close> is not.\<close>

fun truthy :: "jsval \<Rightarrow> bool" where
  "truthy Undefined = False"
| "truthy (Array ds) = True"
| "truthy ProtoMember = True"

section \<open>transformRecipients (index.js lines 90-118)\<close>

text \<open>\<open>Set.prototype.add\<close>: a \<open>Set\<close> keeps its members in insertion order, each once.\<close>

definition set_add :: "string list \<Rightarrow> string \<Rightarrow> string list" where
  "set_add s x = (if x \<in> set s then s else s @ [x])"

text \<open>
  \<open>v.forEach(email => newRecipients.add(email))\<close>: only an array has \<open>forEach\<close>; calling
  it on any other value throws \<open>TypeError\<close>.
\<close>

fun forEach_add :: "jsval \<Rightarrow> string list \<Rightarrow> error + string list" where
  "forEach_add (Array ds) newRecipients = Inr (foldl set_add newRecipients ds)"
| "forEach_add Undefined newRecipients = Inl TypeError"
| "forEach_add ProtoMember newRecipients = Inl TypeError"

text \<open>Lines 95-97: the lookup key of one original address.\<close>

definition origEmailKey :: "config \<Rightarrow> string \<Rightarrow> string" where
  "origEmailKey cfg origEmail =
     (if allowPlusSign cfg
      then toString (index_js (split_js CHR ''+'' (toLowerCase origEmail)) 0)
      else toLowerCase origEmail)"

text \<open>Lines 99-113: the body of the loop, for one original address.\<close>

definition resolveRecipient :: "config \<Rightarrow> string list \<Rightarrow> string \<Rightarrow> error + string list" where
  "resolveRecipient cfg newRecipients origEmail =
     (let key = origEmailKey cfg origEmail;
          fm = forwardMapping cfg
      in if truthy (getProp fm key) then forEach_add (getProp fm key) newRecipients
         else
           (let parts = split_js CHR ''@'' key;
                origEmailUser = index_js parts 0;
                origEmailDomain = index_js parts 1
            in if truthy_str origEmailDomain
                  \<and> truthy (getProp fm (CHR ''@'' # toString origEmailDomain))
               then forEach_add (getProp fm (CHR ''@'' # toString origEmailDomain)) newRecipients
               else if truthy_str origEmailUser \<and> truthy (getProp fm (toString origEmailUser))
               then forEach_add (getProp fm (toString origEmailUser)) newRecipients
               else if truthy (getProp fm ''@'')
               then forEach_add (getProp fm ''@'') newRecipients
               else Inr newRecipients))"

text \<open>Lines 91-116: the loop over the original recipients, from an empty \<open>Set\<close>.\<close>

fun forOf :: "config \<Rightarrow> string list \<Rightarrow> string list \<Rightarrow> error + string list" where
  "forOf cfg newRecipients [] = Inr newRecipients"
| "forOf cfg newRecipients (origEmail # rest) =
     (case resolveRecipient cfg newRecipients origEmail of
        Inl e \<Rightarrow> Inl e
      | Inr newRecipients' \<Rightarrow> forOf cfg newRecipients' rest)"

definition resolveRecipients :: "config \<Rightarrow> string list \<Rightarrow> error + string list" where
  "resolveRecipients cfg originalRecipients = forOf cfg [] originalRecipients"

section \<open>Regular expressions\<close>

text \<open>
  The regular expressions of processMessage, as syntax trees, and the backtracking
  matcher of ECMAScript. \<open>Grp n r\<close> is the n-th capturing group, \<open>Bol\<close> is \<open>^\<close>,
  \<open>Dot\<close> is \<open>.\<close>, \<open>Space\<close> is \<open>\s\<close>, \<open>Cls\<close> a character class, \<open>Star\<close> and \<open>Opt\<close> the
  greedy quantifiers \<open>*\<close> and \<open>?\<close>.
\<close>

datatype re = Chr char | Dot | Space | Cls "char list" | Bol | Eps
  | Seq re re | Star re | Opt re | Grp nat re

text \<open>\<open>r+\<close> is one \<open>r\<close> followed by \<open>r*\<close>.\<close>

definition Plus :: "re \<Rightarrow> re" where
  "Plus r = Seq r (Star r)"

fun seqs :: "re list \<Rightarrow> re" where
  "seqs [] = Eps"
| "seqs (r # rs) = Seq r (seqs rs)"

definition lit :: "string \<Rightarrow> re" where
  "lit s = seqs (map Chr s)"

record flags =
  ignoreCase :: bool
  multiline :: bool

text \<open>Line terminators and white space among the code units below 256.\<close>

definition isLineTerminator :: "char \<Rightarrow> bool" where
  "isLineTerminator c = (c = LF \<or> c = CR)"

definition isWhiteSpace :: "char \<Rightarrow> bool" where
  "isWhiteSpace c =
     (c \<in> set [CHR 0x09, LF, CHR 0x0B, CHR 0x0C, CR, CHR 0x20, CHR 0xA0])"

text \<open>
  Canonicalize of the \<open>i\<close> flag: the upper-case form of the code unit, when that is a
  single code unit below 256 (so not for 181, 223 and 255).
\<close>

definition canonicalize :: "flags \<Rightarrow> char \<Rightarrow> char" where
  "canonicalize fl c =
     (let n = (of_char c :: nat) in
      if ignoreCase fl \<and> ((97 \<le> n \<and> n \<le> 122) \<or> (224 \<le> n \<and> n \<le> 254 \<and> n \<noteq> 247))
      then char_of (n - 32) else c)"

text \<open>
  A matcher state: the code unit before the current position (none at the start of the
  input), the rest of the input, and the captures made so far.
\<close>

type_synonym captures = "(nat \<times> string) list"
type_synonym mstate = "char option \<times> string \<times> captures"

fun groups :: "re \<Rightarrow> nat list" where
  "groups (Seq a b) = groups a @ groups b"
| "groups (Star a) = groups a"
| "groups (Opt a) = groups a"
| "groups (Grp n a) = n # groups a"
| "groups (Chr c) = []"
| "groups Dot = []"
| "groups Space = []"
| "groups (Cls A) = []"
| "groups Bol = []"
| "groups Eps = []"

definition clear :: "re \<Rightarrow> captures \<Rightarrow> captures" where
  "clear r caps = filter (\<lambda>(n, _). n \<notin> set (groups r)) caps"

fun consume :: "(char \<Rightarrow> bool) \<Rightarrow> mstate \<Rightarrow> mstate list" where
  "consume P (prev, [], caps) = []"
| "consume P (prev, c # cs, caps) = (if P c then [(Some c, cs, caps)] else [])"

text \<open>
  \<open>ms fl r st\<close> lists the states in which a match of \<open>r\<close> from \<open>st\<close> can end, in the
  order in which the backtracking matcher tries them: the first one that lets the rest
  of the pattern succeed is the match. A quantifier clears the captures of its body on
  entry to each iteration and rejects an iteration that consumes nothing.
\<close>

fun ms :: "flags \<Rightarrow> re \<Rightarrow> mstate \<Rightarrow> mstate list" where
  "ms fl (Chr p) st = consume (\<lambda>c. canonicalize fl c = canonicalize fl p) st"
| "ms fl Dot st = consume (\<lambda>c. \<not> isLineTerminator c) st"
| "ms fl Space st = consume isWhiteSpace st"
| "ms fl (Cls A) st = consume (\<lambda>c. \<exists>a \<in> set A. canonicalize fl a = canonicalize fl c) st"
| "ms fl Bol (prev, rest, caps) =
     (case prev of
        None \<Rightarrow> [(prev, rest, caps)]
      | Some c \<Rightarrow> if multiline fl \<and> isLineTerminator c then [(prev, rest, caps)] else [])"
| "ms fl Eps st = [st]"
| "ms fl (Seq a b) st = concat (map (ms fl b) (ms fl a st))"
| "ms fl (Star a) (prev, rest, caps) =
     concat (map (\<lambda>(prev', rest', caps').
                    if length rest' < length rest then ms fl (Star a) (prev', rest', caps')
                    else [])
                 (ms fl a (prev, rest, clear a caps)))
     @ [(prev, rest, caps)]"
| "ms fl (Opt a) (prev, rest, caps) =
     filter (\<lambda>(prev', rest', caps'). length rest' < length rest)
            (ms fl a (prev, rest, clear a caps))
     @ [(prev, rest, caps)]"
| "ms fl (Grp n a) (prev, rest, caps) =
     map (\<lambda>(prev', rest', caps').
            (prev', rest',
             (n, take (length rest - length rest') rest) # filter (\<lambda>(k, _). k \<noteq> n) caps'))
         (ms fl a (prev, rest, caps))"

text \<open>A match found: the text before it, the matched text, the captures, the text after it.\<close>

record match_result =
  preceding :: string
  matched :: string
  caps :: captures
  following :: string

text \<open>The match of \<open>r\<close> that starts at the current position, if there is one.\<close>

definition matchAt :: "flags \<Rightarrow> re \<Rightarrow> char option \<Rightarrow> string \<Rightarrow> (string \<times> captures) option" where
  "matchAt fl r prev s =
     (case ms fl r (prev, s, []) of
        [] \<Rightarrow> None
      | (prev', rest', caps') # _ \<Rightarrow> Some (take (length s - length rest') s, caps'))"

text \<open>\<open>RegExp.prototype.exec\<close> without the \<open>g\<close> flag: the leftmost match.\<close>

fun search :: "flags \<Rightarrow> re \<Rightarrow> char option \<Rightarrow> string \<Rightarrow> match_result option" where
  "search fl r prev [] =
     (case matchAt fl r prev [] of
        Some (m, cs) \<Rightarrow> Some \<lparr>preceding = [], matched = m, caps = cs, following = []\<rparr>
      | None \<Rightarrow> None)"
| "search fl r prev (c # s) =
     (case matchAt fl r prev (c # s) of
        Some (m, cs) \<Rightarrow>
          Some \<lparr>preceding = [], matched = m, caps = cs, following = drop (length m) (c # s)\<rparr>
      | None \<Rightarrow>
          (case search fl r (Some c) s of
             Some res \<Rightarrow> Some (res\<lparr>preceding := c # preceding res\<rparr>)
           | None \<Rightarrow> None))"

text \<open>\<open>match[n]\<close>: \<open>undefined\<close> when there is no match or the group took no part.\<close>

definition group :: "match_result option \<Rightarrow> nat \<Rightarrow> string option" where
  "group m n = (case m of None \<Rightarrow> None | Some res \<Rightarrow> map_of (caps res) n)"

text \<open>\<open>regex.test(s)\<close>.\<close>

definition test :: "flags \<Rightarrow> re \<Rightarrow> string \<Rightarrow> bool" where
  "test fl r s = (search fl r None s \<noteq> None)"

text \<open>\<open>s.replace(regex, f)\<close> for a regex without the \<open>g\<close> flag: the first match only.\<close>

definition replaceFirst :: "flags \<Rightarrow> re \<Rightarrow> (string \<Rightarrow> captures \<Rightarrow> string) \<Rightarrow> string \<Rightarrow> string" where
  "replaceFirst fl r f s =
     (case search fl r None s of
        None \<Rightarrow> s
      | Some res \<Rightarrow> preceding res @ f (matched res) (caps res) @ following res)"

text \<open>
  \<open>s.replace(regex, f)\<close> for a regex with the \<open>g\<close> flag: every match, from left to
  right, each search starting where the last match ended (one code unit further after an
  empty match). \<open>skip\<close> counts the code units of the last match still to be passed.
\<close>

fun replaceAll :: "flags \<Rightarrow> re \<Rightarrow> (string \<Rightarrow> captures \<Rightarrow> string) \<Rightarrow> nat \<Rightarrow> char option \<Rightarrow> string \<Rightarrow> string" where
  "replaceAll fl r f skip prev [] =
     (if 0 < skip then []
      else case matchAt fl r prev [] of Some (m, cs) \<Rightarrow> f m cs | None \<Rightarrow> [])"
| "replaceAll fl r f skip prev (c # s) =
     (if 0 < skip then replaceAll fl r f (skip - 1) (Some c) s
      else case matchAt fl r prev (c # s) of
             None \<Rightarrow> c # replaceAll fl r f 0 (Some c) s
           | Some (m, cs) \<Rightarrow>
               if m = [] then f m cs @ c # replaceAll fl r f 0 (Some c) s
               else f m cs @ replaceAll fl r f (length m - 1) (Some c) s)"

definition replace_g :: "flags \<Rightarrow> re \<Rightarrow> (string \<Rightarrow> captures \<Rightarrow> string) \<Rightarrow> string \<Rightarrow> string" where
  "replace_g fl r f s = replaceAll fl r f 0 None s"

text \<open>\<open>s.replace(c, t)\<close> for a one-character string pattern: the first occurrence only.\<close>

fun replaceChar :: "char \<Rightarrow> string \<Rightarrow> string \<Rightarrow> string" where
  "replaceChar p t [] = []"
| "replaceChar p t (c # s) = (if c = p then t @ s else c # replaceChar p t s)"

text \<open>\<open>s.trim()\<close>.\<close>

definition trim :: "string \<Rightarrow> string" where
  "trim s = rev (dropWhile isWhiteSpace (rev (dropWhile isWhiteSpace s)))"

section \<open>The trigger event and the data bundle\<close>

text \<open>
  The Lambda event as parseEvent reads it, a JSON value: \<open>event.Records[0]\<close> with
  \<open>eventSource\<close>, \<open>eventVersion\<close> and \<open>ses\<close>, the latter with \<open>mail.messageId\<close> and
  \<open>receipt.recipients\<close>. \<open>Records\<close> may be missing, \<open>null\<close> or an array, and an element
  of the array may be \<open>null\<close> (\<open>None\<close>). For the other properties \<open>None\<close> stands for a
  property that is missing or \<open>null\<close>, and for \<open>eventSource\<close> and \<open>eventVersion\<close> also
  for a value that is not a string.
\<close>

datatype 'a property = Missing | Null | Value 'a

record sesMail =
  messageId :: string

record sesReceipt =
  receiptRecipients :: "string list option"

record sesNotification =
  mail :: "sesMail option"
  receipt :: "sesReceipt option"

record eventRecord =
  eventSource :: "string option"
  eventVersion :: "string option"
  sesProp :: "sesNotification option"

record event =
  Records :: "eventRecord option list property"

text \<open>The parameters of the two calls to the outside, and the calls as a trace.\<close>

record s3Params =
  Bucket :: string
  Key :: string

record sesParams =
  Destinations :: "string list option"
  Source :: "string option"
  RawMessage :: string

datatype io = GetObject s3Params | SendRawEmail sesParams

text \<open>
  The \<open>data\<close> bundle threaded through the steps. \<open>s3\<close> answers a GetObject request with
  the text of the object, or fails; \<open>ses\<close> accepts a SendRawEmail request or rejects it.
  \<open>originalRecipient\<close> is read by processMessage and sendMessage.
\<close>

record data =
  event :: "event option"
  config :: config
  ses :: "sesParams \<Rightarrow> bool"
  s3 :: "s3Params \<Rightarrow> string option"
  email :: "sesMail option"
  recipients :: "string list option"
  originalRecipients :: "string list option"
  originalRecipient :: "string option"
  emailData :: "string option"

text \<open>A step returns the new bundle or the error it rejects with, and the calls it made.\<close>

type_synonym step = "data \<Rightarrow> (error + data) \<times> io list"

definition pure :: "(data \<Rightarrow> error + data) \<Rightarrow> step" where
  "pure f d = (f d, [])"

section \<open>parseEvent (index.js lines 66-80)\<close>

definition invalidEvent :: error where
  "invalidEvent = Error ''Error: Received invalid SES message.''"

text \<open>
  Lines 68-75 reject with \<open>invalidEvent\<close>; reading a property of \<open>null\<close> or \<open>undefined\<close>
  (\<open>Records.length\<close> of a \<open>null\<close>, \<open>hasOwnProperty\<close> of a \<open>null\<close> record, \<open>ses.mail\<close>
  without \<open>ses\<close>, \<open>receipt.recipients\<close> without \<open>receipt\<close>) throws \<open>TypeError\<close>.
\<close>

definition parseEvent :: "data \<Rightarrow> error + data" where
  "parseEvent d =
     (case event d of
        None \<Rightarrow> Inl invalidEvent
      | Some ev \<Rightarrow>
          (case Records ev of
             Missing \<Rightarrow> Inl invalidEvent
           | Null \<Rightarrow> Inl TypeError
           | Value rs \<Rightarrow>
               if length rs \<noteq> 1 then Inl invalidEvent
               else
                 (case rs of
                    [] \<Rightarrow> Inl invalidEvent
                  | None # _ \<Rightarrow> Inl TypeError
                  | Some r # _ \<Rightarrow>
                      if eventSource r = None then Inl invalidEvent
                      else if eventSource r \<noteq> Some ''aws:ses'' then Inl invalidEvent
                      else if eventVersion r \<noteq> Some ''1.0'' then Inl invalidEvent
                      else
                        (case sesProp r of
                           None \<Rightarrow> Inl TypeError
                         | Some n \<Rightarrow>
                             (case receipt n of
                                None \<Rightarrow> Inl TypeError
                              | Some rc \<Rightarrow>
                                  Inr (d\<lparr>email := mail n,
                                         recipients := receiptRecipients rc\<rparr>))))))"

section \<open>transformRecipients on the data bundle\<close>

definition transformRecipients :: "data \<Rightarrow> error + data" where
  "transformRecipients d =
     (case recipients d of
        None \<Rightarrow> Inl TypeError
      | Some rs \<Rightarrow>
          (case resolveRecipients (config d) rs of
             Inl e \<Rightarrow> Inl e
           | Inr newRecipients \<Rightarrow>
               Inr (d\<lparr>originalRecipients := Some rs, recipients := Some newRecipients\<rparr>)))"

section \<open>fetchMessage (index.js lines 128-149)\<close>

definition fetchMessage :: step where
  "fetchMessage d =
     (case email d of
        None \<Rightarrow> (Inl TypeError, [])
      | Some m \<Rightarrow>
          (let s3Params = \<lparr>Bucket = emailBucket (config d),
                           Key = emailKeyPrefix (config d) @ messageId m\<rparr>
           in (case s3 d s3Params of
                 None \<Rightarrow> Inl (Error ''Error: Failed to load message body from S3.'')
               | Some text \<Rightarrow> Inr (d\<lparr>emailData := Some text\<rparr>),
               [GetObject s3Params])))"

section \<open>processMessage (index.js lines 159-221)\<close>

definition fl_none :: flags where "fl_none = \<lparr>ignoreCase = False, multiline = False\<rparr>"
definition fl_m :: flags where "fl_m = \<lparr>ignoreCase = False, multiline = True\<rparr>"
definition fl_mi :: flags where "fl_mi = \<lparr>ignoreCase = True, multiline = True\<rparr>"

text \<open>\<open>\r?\n\<close> and \<open>[\t ]?\<close>, which most of the patterns share.\<close>

definition eol :: "re list" where
  "eol = [Opt (Chr CR), Chr LF]"

definition blank :: re where
  "blank = Opt (Cls [CHR 0x09, CHR '' ''])"

text \<open>Line 160: \<open>/^((?:.+\r?\n)*)(\r?\n(?:.*\s+)*)/m\<close>.\<close>

definition re_split :: re where
  "re_split =
     seqs [Bol,
           Grp 1 (Star (seqs (Plus Dot # eol))),
           Grp 2 (seqs (eol @ [Star (seqs [Star Dot, Plus Space])]))]"

text \<open>Line 165: \<open>/^reply-to:[\t ]?/mi\<close>.\<close>

definition re_replyTo :: re where
  "re_replyTo = seqs [Bol, lit ''reply-to:'', blank]"

text \<open>Line 166: \<open>/^from:[\t ]?(.*(?:\r?\n\s+.*)*\r?\n)/mi\<close>.\<close>

definition re_fromLine :: re where
  "re_fromLine =
     seqs [Bol, lit ''from:'', blank,
           Grp 1 (seqs ([Star Dot, Star (seqs (eol @ [Plus Space, Star Dot]))] @ eol))]"

text \<open>Line 177: \<open>/^from:[\t ]?(.*(?:\r?\n\s+.*)*)/mgi\<close>.\<close>

definition re_from :: re where
  "re_from =
     seqs [Bol, lit ''from:'', blank,
           Grp 1 (seqs [Star Dot, Star (seqs (eol @ [Plus Space, Star Dot]))])]"

text \<open>Line 181: \<open>/<(.*)>/\<close>.\<close>

definition re_angle :: re where
  "re_angle = seqs [Chr CHR ''<'', Grp 1 (Star Dot), Chr CHR ''>'']"

text \<open>Lines 193 and 201: \<open>/^subject:[\t ]?(.*)/mgi\<close> and \<open>/^to:[\t ]?(.*)/mgi\<close>.\<close>

definition re_subject :: re where
  "re_subject = seqs [Bol, lit ''subject:'', blank, Grp 1 (Star Dot)]"

definition re_to :: re where
  "re_to = seqs [Bol, lit ''to:'', blank, Grp 1 (Star Dot)]"

text \<open>
  Lines 205, 208, 211: \<open>/^return-path:[\t ]?(.*)\r?\n/mgi\<close>, and the same for \<open>sender:\<close>
  and \<open>message-id:\<close>.
\<close>

definition re_line :: "string \<Rightarrow> re" where
  "re_line name = seqs ([Bol, lit name, blank, Grp 1 (Star Dot)] @ eol)"

text \<open>Line 217: \<open>/^dkim-signature:[\t ]?.*\r?\n(\s+.*\r?\n)*/mgi\<close>.\<close>

definition re_dkim :: re where
  "re_dkim =
     seqs ([Bol, lit ''dkim-signature:'', blank, Star Dot] @ eol
           @ [Star (Grp 1 (seqs ([Plus Space, Star Dot] @ eol)))])"

text \<open>Lines 160-162: the header block and the body.\<close>

definition splitMessage :: "string \<Rightarrow> string \<times> string" where
  "splitMessage text =
     (let match = search fl_m re_split None text;
          header = (if truthy_str (group match 1) then toString (group match 1) else text);
          body = (if truthy_str (group match 2) then toString (group match 2) else [])
      in (header, body))"

text \<open>Lines 164-171: add Reply-To with the value of From, if there is no Reply-To.\<close>

definition addReplyTo :: "string \<Rightarrow> string" where
  "addReplyTo header =
     (if \<not> test fl_mi re_replyTo header
      then (let match = search fl_mi re_fromLine None header;
                from = (if truthy_str (group match 1) then toString (group match 1) else [])
            in if from \<noteq> [] then header @ ''Reply-To: '' @ from else header)
      else header)"

text \<open>
  Lines 176-188: the replacement of every From header. Group 1 of \<open>re_from\<close> takes part in
  every match, so the argument \<open>from\<close> of the callback is always a string.
\<close>

definition fromText :: "config \<Rightarrow> string option \<Rightarrow> string \<Rightarrow> captures \<Rightarrow> string" where
  "fromText cfg origRecipient m cs =
     (let from = (case map_of cs 1 of Some x \<Rightarrow> x | None \<Rightarrow> [])
      in if truthy_str (fromEmail cfg)
         then ''From: '' @ trim (replaceFirst fl_none re_angle (\<lambda>_ _. []) from)
              @ '' <'' @ toString (fromEmail cfg) @ ''>''
         else ''From: '' @ replaceChar CHR ''>'' [] (replaceChar CHR ''<'' ''at '' from)
              @ '' <'' @ toString origRecipient @ ''>'')"

definition rewriteFrom :: "config \<Rightarrow> string option \<Rightarrow> string \<Rightarrow> string" where
  "rewriteFrom cfg origRecipient header =
     replace_g fl_mi re_from (fromText cfg origRecipient) header"

text \<open>Lines 190-197 and 199-202.\<close>

definition prefixSubject :: "config \<Rightarrow> string \<Rightarrow> string" where
  "prefixSubject cfg header =
     (if truthy_str (subjectPrefix cfg)
      then replace_g fl_mi re_subject
             (\<lambda>m cs. ''Subject: '' @ toString (subjectPrefix cfg) @ toString (map_of cs 1)) header
      else header)"

definition replaceTo :: "config \<Rightarrow> string \<Rightarrow> string" where
  "replaceTo cfg header =
     (if truthy_str (toEmail cfg)
      then replace_g fl_mi re_to (\<lambda>m cs. ''To: '' @ toString (toEmail cfg)) header
      else header)"

text \<open>Lines 204-211 and 213-217.\<close>

definition removeHeaders :: "string \<Rightarrow> string" where
  "removeHeaders header =
     replace_g fl_mi (re_line ''message-id:'') (\<lambda>m cs. [])
       (replace_g fl_mi (re_line ''sender:'') (\<lambda>m cs. [])
          (replace_g fl_mi (re_line ''return-path:'') (\<lambda>m cs. []) header))"

definition removeDkim :: "string \<Rightarrow> string" where
  "removeDkim header = replace_g fl_mi re_dkim (\<lambda>m cs. []) header"

definition transformHeader :: "config \<Rightarrow> string option \<Rightarrow> string \<Rightarrow> string" where
  "transformHeader cfg origRecipient header =
     removeDkim (removeHeaders (replaceTo cfg (prefixSubject cfg
       (rewriteFrom cfg origRecipient (addReplyTo header)))))"

definition processMessage :: "data \<Rightarrow> error + data" where
  "processMessage d =
     (case emailData d of
        None \<Rightarrow> Inl TypeError
      | Some text \<Rightarrow>
          (let (header, body) = splitMessage text
           in Inr (d\<lparr>emailData :=
                      Some (transformHeader (config d) (originalRecipient d) header @ body)\<rparr>)))"

section \<open>sendMessage (index.js lines 230-246)\<close>

definition sendMessage :: step where
  "sendMessage d =
     (case emailData d of
        None \<Rightarrow> (Inl TypeError, [])
      | Some text \<Rightarrow>
          (let params = \<lparr>Destinations = recipients d,
                         Source = originalRecipient d,
                         RawMessage = text\<rparr>
           in (if ses d params then Inr d else Inl (Error ''Error: Email sending failed.''),
               [SendRawEmail params])))"

section \<open>handler (index.js lines 258-286)\<close>

text \<open>
  \<open>overrides\<close> may replace the steps, the configuration and the two clients; \<open>aws\<close> stands
  for the clients that \<open>new SESClient()\<close> and \<open>new S3Client(...)\<close> give.
\<close>

record overrides =
  o_steps :: "step list option"
  o_config :: "config option"
  o_ses :: "(sesParams \<Rightarrow> bool) option"
  o_s3 :: "(s3Params \<Rightarrow> string option) option"

record aws =
  sesClient :: "sesParams \<Rightarrow> bool"
  s3Client :: "s3Params \<Rightarrow> string option"

definition defaultSteps :: "step list" where
  "defaultSteps =
     [pure parseEvent, pure transformRecipients, fetchMessage, pure processMessage, sendMessage]"

text \<open>Lines 276-278: each step gets the bundle the one before returned; a rejection ends the loop.\<close>

fun runSteps :: "step list \<Rightarrow> data \<Rightarrow> (error + data) \<times> io list" where
  "runSteps [] d = (Inr d, [])"
| "runSteps (stp # rest) d =
     (case stp d of
        (Inl e, t) \<Rightarrow> (Inl e, t)
      | (Inr d', t) \<Rightarrow> (case runSteps rest d' of (res, t') \<Rightarrow> (res, t @ t')))"

text \<open>What the handler passes to the Lambda callback: \<open>(null, 'Success')\<close> or the error.\<close>

datatype callback = Success | Failure error

definition orElse :: "'a option \<Rightarrow> 'a \<Rightarrow> 'a" where
  "orElse x y = (case x of Some v \<Rightarrow> v | None \<Rightarrow> y)"

definition initialData :: "aws \<Rightarrow> event option \<Rightarrow> overrides option \<Rightarrow> data" where
  "initialData env ev ovr =
     \<lparr>event = ev,
      config = orElse (Option.bind ovr o_config) defaultConfig,
      ses = orElse (Option.bind ovr o_ses) (sesClient env),
      s3 = orElse (Option.bind ovr o_s3) (s3Client env),
      email = None, recipients = None, originalRecipients = None,
      originalRecipient = None, emailData = None\<rparr>"

definition handler :: "aws \<Rightarrow> event option \<Rightarrow> overrides option \<Rightarrow> callback \<times> io list" where
  "handler env ev ovr =
     (case runSteps (orElse (Option.bind ovr o_steps) defaultSteps) (initialData env ev ovr) of
        (Inr d, t) \<Rightarrow> (Success, t)
      | (Inl e, t) \<Rightarrow> (Failure e, t))"

section \<open>A sample invocation\<close>

text \<open>
  Mail from \<open>Jane <jane@example.com>\<close> to \<open>info@example.com\<close>, stored under the message
  id \<open>m1\<close>; both services answer successfully.
\<close>

definition janeMessage :: string where
  "janeMessage = ''From: Jane <jane@example.com>'' @ [CR, LF] @ [CR, LF] @ ''Hi'' @ [CR, LF]"

definition sesEvent :: "string \<Rightarrow> string list \<Rightarrow> event" where
  "sesEvent mid rs =
     \<lparr>Records = Value [Some \<lparr>eventSource = Some ''aws:ses'', eventVersion = Some ''1.0'',
         sesProp = Some \<lparr>mail = Some \<lparr>messageId = mid\<rparr>,
                         receipt = Some \<lparr>receiptRecipients = Some rs\<rparr>\<rparr>\<rparr>]\<rparr>"

definition janeEvent :: event where
  "janeEvent = sesEvent ''m1'' [''info@example.com'']"

definition janeAws :: aws where
  "janeAws = \<lparr>sesClient = (\<lambda>p. True), s3Client = (\<lambda>p. Some janeMessage)\<rparr>"

text \<open>The default configuration without the \<open>fromEmail\<close> override.\<close>

definition noFromEmail :: overrides where
  "noFromEmail = \<lparr>o_steps = None, o_config = Some (defaultConfig\<lparr>fromEmail := None\<rparr>),
                  o_ses = None, o_s3 = None\<rparr>"

text \<open>The same invocation with a storage service that fails.\<close>

definition blockedAws :: aws where
  "blockedAws = \<lparr>sesClient = (\<lambda>p. True), s3Client = (\<lambda>p. None)\<rparr>"

text \<open>The default configuration with an empty mapping, and with a catch-all only.\<close>

definition noMapping :: overrides where
  "noMapping = \<lparr>o_steps = None,
                o_config = Some (defaultConfig\<lparr>forwardMapping := Map.empty\<rparr>),
                o_ses = None, o_s3 = None\<rparr>"

definition catchAllOnly :: config where
  "catchAllOnly = defaultConfig\<lparr>forwardMapping := [''@'' \<mapsto> [''catchall@example.com'']]\<rparr>"

text \<open>A bundle with three original recipients, two of them sharing a destination.\<close>

definition threeRecipients :: data where
  "threeRecipients =
     (initialData janeAws (Some janeEvent) None)
       \<lparr>recipients := Some [''info@example.com'', ''abuse@example.com'', ''Sales@Example.com'']\<rparr>"

section \<open>The terms of the specification\<close>

text \<open>
  The keys of the four tiers for one lookup key, in order of precedence: the exact key,
  \<open>@domain\<close>, the mailbox name, and \<open>@\<close>. The domain is the text between the first and
  the second \<open>@\<close>, the mailbox name the text before the first; the tier of a part that is
  missing or empty does not exist.
\<close>

definition tiers :: "string \<Rightarrow> string list" where
  "tiers key =
     (let parts = split_js CHR ''@'' key;
          user = index_js parts 0;
          domain = index_js parts 1
      in [key]
         @ (if truthy_str domain then [CHR ''@'' # toString domain] else [])
         @ (if truthy_str user then [toString user] else [])
         @ [''@''])"

text \<open>A tier matches when the lookup of its key in \<open>forwardMapping\<close> gives a truthy value.\<close>

definition matches :: "config \<Rightarrow> string \<Rightarrow> bool" where
  "matches cfg key = truthy (getProp (forwardMapping cfg) key)"

text \<open>The destinations of one original address: those of the first tier that matches.\<close>

definition destinationsOf :: "config \<Rightarrow> string \<Rightarrow> string list" where
  "destinationsOf cfg origEmail =
     (case find (matches cfg) (tiers (origEmailKey cfg origEmail)) of
        None \<Rightarrow> []
      | Some k \<Rightarrow> (case getProp (forwardMapping cfg) k of Array ds \<Rightarrow> ds | _ \<Rightarrow> []))"

section \<open>What each step returns\<close>

lemma parseEvent_Inr:
  "parseEvent d = Inr d' \<Longrightarrow> \<exists>m rs. d' = d\<lparr>email := m, recipients := rs\<rparr>"
  by (auto simp: parseEvent_def split: option.splits property.splits list.splits if_splits)

lemma parseEvent_Inl:
  "parseEvent d = Inl e \<Longrightarrow> e = invalidEvent \<or> e = TypeError"
  by (auto simp: parseEvent_def split: option.splits property.splits list.splits if_splits)

lemma resolveRecipient_tiers:
  "resolveRecipient cfg new e =
     (case find (matches cfg) (tiers (origEmailKey cfg e)) of
        None \<Rightarrow> Inr new
      | Some k \<Rightarrow> forEach_add (getProp (forwardMapping cfg) k) new)"
  by (simp add: resolveRecipient_def tiers_def matches_def Let_def)

lemma resolveRecipient_Inl:
  "resolveRecipient cfg new r = Inl e \<Longrightarrow> e = TypeError"
  unfolding resolveRecipient_tiers
  by (cases "find (matches cfg) (tiers (origEmailKey cfg r))")
     (auto elim: forEach_add.elims)

lemma forOf_Inl: "forOf cfg new rs = Inl e \<Longrightarrow> e = TypeError"
  by (induction rs arbitrary: new) (auto split: sum.splits dest: resolveRecipient_Inl)

lemma transformRecipients_Inl: "transformRecipients d = Inl e \<Longrightarrow> e = TypeError"
  by (auto simp: transformRecipients_def resolveRecipients_def
           split: option.splits sum.splits dest: forOf_Inl)

lemma transformRecipients_Inr:
  "transformRecipients d = Inr d' \<Longrightarrow>
     \<exists>rs new. recipients d = Some rs \<and> resolveRecipients (config d) rs = Inr new \<and>
       d' = d\<lparr>originalRecipients := Some rs, recipients := Some new\<rparr>"
  by (auto simp: transformRecipients_def split: option.splits sum.splits)

lemma fetchMessage_Inr:
  "fetchMessage d = (Inr d', t) \<Longrightarrow>
     \<exists>m text. email d = Some m \<and>
       t = [GetObject \<lparr>Bucket = emailBucket (config d),
                       Key = emailKeyPrefix (config d) @ messageId m\<rparr>] \<and>
       s3 d \<lparr>Bucket = emailBucket (config d),
             Key = emailKeyPrefix (config d) @ messageId m\<rparr> = Some text \<and>
       d' = d\<lparr>emailData := Some text\<rparr>"
  by (auto simp: fetchMessage_def Let_def split: option.splits)

lemma fetchMessage_Inl:
  "fetchMessage d = (Inl e, t) \<Longrightarrow>
     (email d = None \<and> e = TypeError \<and> t = []) \<or>
     (\<exists>p. t = [GetObject p] \<and> s3 d p = None \<and>
           e = Error ''Error: Failed to load message body from S3.'')"
  by (auto simp: fetchMessage_def Let_def split: option.splits)

lemma processMessage_Some:
  "emailData d = Some text \<Longrightarrow>
     processMessage d =
       Inr (d\<lparr>emailData := Some (case splitMessage text of
              (header, body) \<Rightarrow> transformHeader (config d) (originalRecipient d) header @ body)\<rparr>)"
  by (simp add: processMessage_def split: prod.splits)

lemma sendMessage_Some:
  "emailData d = Some raw \<Longrightarrow>
     sendMessage d =
       (if ses d \<lparr>Destinations = recipients d, Source = originalRecipient d, RawMessage = raw\<rparr>
        then Inr d else Inl (Error ''Error: Email sending failed.''),
        [SendRawEmail \<lparr>Destinations = recipients d, Source = originalRecipient d,
                        RawMessage = raw\<rparr>])"
  by (simp add: sendMessage_def Let_def)

lemma sendMessage_trace:
  "SendRawEmail q \<in> set (snd (sendMessage d)) \<Longrightarrow> Source q = originalRecipient d"
  by (auto simp: sendMessage_def Let_def split: option.splits)

lemma fetchMessage_trace: "SendRawEmail q \<notin> set (snd (fetchMessage d))"
  by (auto simp: fetchMessage_def Let_def split: option.splits)

text \<open>The loop of the handler over the five default steps, written out.\<close>

lemma handler_unrolled:
  assumes "Option.bind ovr o_steps = None"
  shows "handler env ev ovr =
     (case parseEvent (initialData env ev ovr) of
        Inl e \<Rightarrow> (Failure e, [])
      | Inr d1 \<Rightarrow>
         (case transformRecipients d1 of
            Inl e \<Rightarrow> (Failure e, [])
          | Inr d2 \<Rightarrow>
             (case fetchMessage d2 of
                (Inl e, t3) \<Rightarrow> (Failure e, t3)
              | (Inr d3, t3) \<Rightarrow>
                 (case processMessage d3 of
                    Inl e \<Rightarrow> (Failure e, t3)
                  | Inr d4 \<Rightarrow>
                     (case sendMessage d4 of
                        (Inl e, t5) \<Rightarrow> (Failure e, t3 @ t5)
                      | (Inr d5, t5) \<Rightarrow> (Success, t3 @ t5))))))"
  using assms
  by (simp add: handler_def defaultSteps_def orElse_def pure_def
           split: sum.splits prod.splits)

text \<open>The four ways a run of the default steps can end.\<close>

lemma handler_outcomes:
  assumes dflt: "Option.bind ovr o_steps = None"
  shows "(\<exists>e. handler env ev ovr = (Failure e, []) \<and> (e = invalidEvent \<or> e = TypeError))
       \<or> (\<exists>p. handler env ev ovr
                = (Failure (Error ''Error: Failed to load message body from S3.''), [GetObject p])
              \<and> s3 (initialData env ev ovr) p = None)
       \<or> (\<exists>p q text. handler env ev ovr
                = (Failure (Error ''Error: Email sending failed.''),
                   [GetObject p, SendRawEmail q])
              \<and> s3 (initialData env ev ovr) p = Some text
              \<and> ses (initialData env ev ovr) q = False)
       \<or> (\<exists>p q text. handler env ev ovr = (Success, [GetObject p, SendRawEmail q])
              \<and> s3 (initialData env ev ovr) p = Some text
              \<and> ses (initialData env ev ovr) q = True)"
proof (cases "parseEvent (initialData env ev ovr)")
  case (Inl e)
  with parseEvent_Inl [OF Inl] show ?thesis
    by (simp add: handler_unrolled [OF dflt])
next
  case (Inr d1)
  from parseEvent_Inr [OF Inr] obtain m rs where
    d1: "d1 = (initialData env ev ovr)\<lparr>email := m, recipients := rs\<rparr>" by blast
  show ?thesis
  proof (cases "transformRecipients d1")
    case (Inl e)
    with transformRecipients_Inl [OF Inl] Inr show ?thesis
      by (simp add: handler_unrolled [OF dflt])
  next
    case d2: (Inr d2)
    from transformRecipients_Inr [OF d2] obtain rs' new where
      d2eq: "d2 = d1\<lparr>originalRecipients := Some rs', recipients := Some new\<rparr>" by blast
    obtain r3 t3 where f: "fetchMessage d2 = (r3, t3)" by (cases "fetchMessage d2")
    show ?thesis
    proof (cases r3)
      case (Inl e)
      with f have "fetchMessage d2 = (Inl e, t3)" by simp
      from fetchMessage_Inl [OF this] show ?thesis
      proof
        assume "email d2 = None \<and> e = TypeError \<and> t3 = []"
        with Inr d2 f Inl show ?thesis
          by (simp add: handler_unrolled [OF dflt])
      next
        assume "\<exists>p. t3 = [GetObject p] \<and> s3 d2 p = None \<and>
                  e = Error ''Error: Failed to load message body from S3.''"
        with d2eq d1 obtain p where "t3 = [GetObject p]"
          "s3 (initialData env ev ovr) p = None"
          "e = Error ''Error: Failed to load message body from S3.''"
          by auto
        with Inr d2 f Inl show ?thesis
          by (simp add: handler_unrolled [OF dflt])
      qed
    next
      case d3: (Inr d3)
      with f have "fetchMessage d2 = (Inr d3, t3)" by simp
      from fetchMessage_Inr [OF this] obtain p msg where
        t3: "t3 = [GetObject p]" and
        got: "s3 d2 p = Some msg" and
        d3eq: "d3 = d2\<lparr>emailData := Some msg\<rparr>" by blast
      have s3eq: "s3 d2 = s3 (initialData env ev ovr)" and
           seseq: "ses d2 = ses (initialData env ev ovr)"
        by (simp_all add: d2eq d1)
      define d4 where "d4 = d3\<lparr>emailData := Some (case splitMessage msg of
              (header, body) \<Rightarrow> transformHeader (config d3) (originalRecipient d3) header @ body)\<rparr>"
      have p4: "processMessage d3 = Inr d4"
        unfolding d4_def by (rule processMessage_Some) (simp add: d3eq)
      have "\<exists>raw. emailData d4 = Some raw" by (simp add: d4_def)
      then obtain raw where raw: "emailData d4 = Some raw" by blast
      have ses4: "ses d4 = ses (initialData env ev ovr)"
        by (simp add: d4_def d3eq seseq)
      note snd = sendMessage_Some [OF raw]
      show ?thesis
      proof (cases "ses d4 \<lparr>Destinations = recipients d4, Source = originalRecipient d4,
                              RawMessage = raw\<rparr>")
        case True
        with Inr d2 f d3 p4 snd t3 got s3eq ses4 show ?thesis
          by (simp add: handler_unrolled [OF dflt])
      next
        case False
        with Inr d2 f d3 p4 snd t3 got s3eq ses4 show ?thesis
          by (simp add: handler_unrolled [OF dflt])
      qed
    qed
  qed
qed

section \<open>Plus-sign suffixes\<close>

text \<open>
  C1. With \<open>allowPlusSign\<close> enabled, \<open>user+tag@domain\<close> is meant to resolve like
  \<open>user@domain\<close> (the comment at lines 22-26 says so). The code cuts the whole lowercased
  address at the first plus sign, so the key of \<open>info+test@example.com\<close> is \<open>info\<close>, the
  domain is lost, and under the default configuration the address resolves to nothing
  while \<open>info@example.com\<close> resolves to its two destinations.
\<close>

theorem plus_sign_loses_domain:
  "origEmailKey defaultConfig ''info+test@example.com'' = ''info'' \<and>
   resolveRecipients defaultConfig [''info+test@example.com''] = Inr [] \<and>
   resolveRecipients defaultConfig [''info@example.com'']
     = Inr [''example.john@example.com'', ''example.jen@example.com'']"
  by code_simp

section \<open>The original recipient\<close>

text \<open>
  C2. For the message of Jane to \<open>info@example.com\<close>, with no \<open>fromEmail\<close> configured, the
  rewritten header is meant to hold \<open>Reply-To: Jane <jane@example.com>\<close> and
  \<open>From: Jane at jane@example.com <info@example.com>\<close> (the comment at lines 173-175 names
  the original recipient). The Reply-To line is as stated. The From line ends in
  \<open><undefined>\<close>: processMessage reads \<open>data.originalRecipient\<close>, which no step assigns
  (transformRecipients sets \<open>data.originalRecipients\<close>).
\<close>

theorem from_header_without_recipient:
  "handler janeAws (Some janeEvent) (Some noFromEmail) =
     (Success,
      [GetObject \<lparr>Bucket = ''your-s3-bucket-name'', Key = ''emailsPrefix/m1''\<rparr>,
       SendRawEmail
         \<lparr>Destinations = Some [''example.john@example.com'', ''example.jen@example.com''],
          Source = None,
          RawMessage = ''From: Jane at jane@example.com <undefined>'' @ [CR, LF]
            @ ''Reply-To: Jane <jane@example.com>'' @ [CR, LF]
            @ [CR, LF] @ ''Hi'' @ [CR, LF]\<rparr>])"
  by code_simp

text \<open>
  C3. In a successful run the source identity of the send request is meant to be the
  original destination address of the envelope, an address of the event's recipient list.
  Under the default configuration the run for the message to \<open>info@example.com\<close>
  succeeds with a request whose \<open>Source\<close> is \<open>undefined\<close>: sendMessage reads the same
  \<open>data.originalRecipient\<close> that no step assigns.
\<close>

theorem send_source_undefined:
  "handler janeAws (Some janeEvent) None =
     (Success,
      [GetObject \<lparr>Bucket = ''your-s3-bucket-name'', Key = ''emailsPrefix/m1''\<rparr>,
       SendRawEmail
         \<lparr>Destinations = Some [''example.john@example.com'', ''example.jen@example.com''],
          Source = None,
          RawMessage = ''From: Jane <noreply@example.com>'' @ [CR, LF]
            @ ''Reply-To: Jane <jane@example.com>'' @ [CR, LF]
            @ [CR, LF] @ ''Hi'' @ [CR, LF]\<rparr>])"
  by code_simp

text \<open>The same holds of every send request of the default steps.\<close>

lemma send_source_None:
  assumes dflt: "Option.bind ovr o_steps = None"
    and sent: "SendRawEmail q \<in> set (snd (handler env ev ovr))"
  shows "Source q = None"
proof (cases "parseEvent (initialData env ev ovr)")
  case (Inl e)
  with sent show ?thesis by (simp add: handler_unrolled [OF dflt])
next
  case p1: (Inr d1)
  show ?thesis
  proof (cases "transformRecipients d1")
    case (Inl e)
    with sent p1 show ?thesis by (simp add: handler_unrolled [OF dflt])
  next
    case p2: (Inr d2)
    obtain r3 t3 where p3: "fetchMessage d2 = (r3, t3)" by (cases "fetchMessage d2")
    have nt3: "SendRawEmail q \<notin> set t3"
      using fetchMessage_trace [of q d2] p3 by simp
    show ?thesis
    proof (cases r3)
      case (Inl e)
      with sent p1 p2 p3 nt3 show ?thesis by (simp add: handler_unrolled [OF dflt])
    next
      case r3: (Inr d3)
      show ?thesis
      proof (cases "processMessage d3")
        case (Inl e)
        with sent p1 p2 p3 r3 nt3 show ?thesis by (simp add: handler_unrolled [OF dflt])
      next
        case p4: (Inr d4)
        obtain r5 t5 where p5: "sendMessage d4 = (r5, t5)" by (cases "sendMessage d4")
        from sent p1 p2 p3 r3 p4 p5 nt3 have "SendRawEmail q \<in> set t5"
          by (cases r5) (simp_all add: handler_unrolled [OF dflt])
        with p5 sendMessage_trace [of q d4] have "Source q = originalRecipient d4" by simp
        moreover have "originalRecipient d4 = None"
          using parseEvent_Inr [OF p1] transformRecipients_Inr [OF p2]
            fetchMessage_Inr [OF p3 [unfolded r3]] p4
          by (auto simp: processMessage_def initialData_def split: option.splits prod.splits)
        ultimately show ?thesis by simp
      qed
    qed
  qed
qed

section \<open>Header and body\<close>

text \<open>
  C4. Splitting a message into header and body and joining the two is meant to give the
  message back. The body pattern \<open>\r?\n(?:.*\s+)*\<close> ends at the last white space, so the
  text after it is lost: for a message whose last line has no line end, header and body
  together are shorter than the message.
\<close>

theorem split_loses_last_line:
  "splitMessage (''A: b'' @ [CR, LF] @ [CR, LF] @ ''hello'') = (''A: b'' @ [CR, LF], [CR, LF])"
  by code_simp

text \<open>
  C5. A Return-Path, Sender or Message-ID header is meant to be deleted together with its
  folded continuation lines, as the pattern for DKIM-Signature does. The three patterns of
  lines 205-211 end at the first line end: of a folded Message-ID only the first line is
  deleted, and its continuation line stays, now continuing the header above it.
\<close>

theorem folded_header_left_behind:
  "removeHeaders (''To: x@y.z'' @ [CR, LF] @ ''Message-ID:'' @ [CR, LF]
                    @ '' <abc@example.com>'' @ [CR, LF])
     = ''To: x@y.z'' @ [CR, LF] @ '' <abc@example.com>'' @ [CR, LF]
   \<and> removeDkim (''To: x@y.z'' @ [CR, LF] @ ''DKIM-Signature:'' @ [CR, LF]
                    @ '' <abc@example.com>'' @ [CR, LF])
     = ''To: x@y.z'' @ [CR, LF]"
  by code_simp

section \<open>Resolution of the recipients\<close>

text \<open>
  C6. The tiers are meant to be consulted in the order exact key, domain wildcard, mailbox
  wildcard, catch-all, the first that matches adding its destinations. The loop body does
  follow that order (lemma \<open>resolveRecipient_tiers\<close>), but it takes any truthy value of
  \<open>forwardMapping[key]\<close> for a match, where the comment at lines 28-38 speaks of the keys
  of the mapping. For \<open>constructor@example.org\<close> and a mapping with the catch-all key
  only, the mailbox lookup finds \<open>Object.prototype.constructor\<close>, calls \<open>forEach\<close> on it
  and throws, where the catch-all destinations were to be added, as they are for any other
  mailbox name.
\<close>

theorem inherited_member_throws:
  "resolveRecipients catchAllOnly [''builder@example.org''] = Inr [''catchall@example.com'']
   \<and> resolveRecipients catchAllOnly [''constructor@example.org''] = Inl TypeError"
  by code_simp

lemma set_add_first: "set_add (rev (remdups (rev xs))) x = rev (remdups (rev (xs @ [x])))"
  by (simp add: set_add_def)

lemma foldl_set_add_first:
  "foldl set_add (rev (remdups (rev xs))) ds = rev (remdups (rev (xs @ ds)))"
proof (induction ds arbitrary: xs)
  case Nil
  show ?case by simp
next
  case (Cons d ds)
  have "foldl set_add (rev (remdups (rev xs))) (d # ds)
          = foldl set_add (rev (remdups (rev (xs @ [d])))) ds"
    by (simp only: foldl_Cons set_add_first)
  also have "\<dots> = rev (remdups (rev ((xs @ [d]) @ ds)))"
    by (rule Cons.IH)
  finally show ?case by simp
qed

lemma resolveRecipient_Inr:
  "resolveRecipient cfg new e = Inr new' \<Longrightarrow> new' = foldl set_add new (destinationsOf cfg e)"
  unfolding resolveRecipient_tiers destinationsOf_def
  by (cases "find (matches cfg) (tiers (origEmailKey cfg e))")
     (auto split: jsval.splits)

lemma forOf_first:
  "forOf cfg (rev (remdups (rev xs))) rs = Inr out \<Longrightarrow>
     out = rev (remdups (rev (xs @ concat (map (destinationsOf cfg) rs))))"
proof (induction rs arbitrary: xs)
  case Nil
  then show ?case by simp
next
  case (Cons r rs)
  from Cons.prems obtain new' where
    step: "resolveRecipient cfg (rev (remdups (rev xs))) r = Inr new'" and
    rest: "forOf cfg new' rs = Inr out"
    by (auto split: sum.splits)
  from resolveRecipient_Inr [OF step]
  have "new' = rev (remdups (rev (xs @ destinationsOf cfg r)))"
    by (simp only: foldl_set_add_first)
  with rest Cons.IH [of "xs @ destinationsOf cfg r"] show ?case by simp
qed

text \<open>
  C7. The recipient list that transformRecipients produces has no duplicates, and it is
  determined by its inputs: it is the list of the destinations of the original recipients,
  taken in order, each address at its first occurrence.
\<close>

theorem resolved_first_occurrences:
  assumes "transformRecipients d = Inr d'"
  shows "\<exists>rs out. recipients d = Some rs \<and> recipients d' = Some out \<and> distinct out \<and>
           out = rev (remdups (rev (concat (map (destinationsOf (config d)) rs))))"
proof -
  from transformRecipients_Inr [OF assms] obtain rs out where
    rs: "recipients d = Some rs" and
    run: "resolveRecipients (config d) rs = Inr out" and
    d': "d' = d\<lparr>originalRecipients := Some rs, recipients := Some out\<rparr>"
    by blast
  from run have "forOf (config d) (rev (remdups (rev []))) rs = Inr out"
    by (simp add: resolveRecipients_def)
  from forOf_first [OF this]
  have out: "out = rev (remdups (rev (concat (map (destinationsOf (config d)) rs))))"
    by simp
  then have "distinct out" by simp
  with rs d' out show ?thesis by simp
qed

theorem resolved_first_occurrences_witness:
  "transformRecipients threeRecipients =
     Inr (threeRecipients
           \<lparr>originalRecipients :=
              Some [''info@example.com'', ''abuse@example.com'', ''Sales@Example.com''],
            recipients :=
              Some [''example.john@example.com'', ''example.jen@example.com'',
                    ''example.jim@example.com'']\<rparr>)
   \<and> [''example.john@example.com'', ''example.jen@example.com'', ''example.jim@example.com'']
     = rev (remdups (rev (concat (map (destinationsOf defaultConfig)
         [''info@example.com'', ''abuse@example.com'', ''Sales@Example.com'']))))"
proof -
  have cfg: "config threeRecipients = defaultConfig"
    and rs: "recipients threeRecipients
               = Some [''info@example.com'', ''abuse@example.com'', ''Sales@Example.com'']"
    by (simp_all add: threeRecipients_def initialData_def orElse_def)
  have run: "resolveRecipients defaultConfig
       [''info@example.com'', ''abuse@example.com'', ''Sales@Example.com'']
     = Inr [''example.john@example.com'', ''example.jen@example.com'',
            ''example.jim@example.com'']"
    by code_simp
  have step: "transformRecipients threeRecipients =
     Inr (threeRecipients
           \<lparr>originalRecipients :=
              Some [''info@example.com'', ''abuse@example.com'', ''Sales@Example.com''],
            recipients :=
              Some [''example.john@example.com'', ''example.jen@example.com'',
                    ''example.jim@example.com'']\<rparr>)"
    by (simp add: transformRecipients_def cfg rs run)
  from resolved_first_occurrences [OF step] cfg rs step show ?thesis by simp
qed

section \<open>Validation of the event\<close>

text \<open>
  C8. parseEvent is meant to reject with the error \<open>Received invalid SES message\<close>
  exactly when the event does not have the expected shape, and the test of lines 68-73
  does so for an event without \<open>Records\<close>. An event whose \<open>Records\<close> is \<open>null\<close>, whose
  one record is \<open>null\<close>, or whose record has no \<open>ses\<close> property does not have that shape
  either, but the test reads a property of \<open>null\<close>, or lets the event pass to lines
  77-78, and parseEvent throws \<open>TypeError\<close>: the run fails with that error instead.
\<close>

theorem malformed_event_throws:
  "handler janeAws (Some \<lparr>Records = Missing\<rparr>) None = (Failure invalidEvent, [])
   \<and> handler janeAws (Some \<lparr>Records = Null\<rparr>) None = (Failure TypeError, [])
   \<and> handler janeAws (Some \<lparr>Records = Value [None]\<rparr>) None = (Failure TypeError, [])
   \<and> handler janeAws
         (Some \<lparr>Records = Value [Some \<lparr>eventSource = Some ''aws:ses'',
                                         eventVersion = Some ''1.0'', sesProp = None\<rparr>]\<rparr>)
         None
       = (Failure TypeError, [])"
  by (simp add: handler_def defaultSteps_def pure_def orElse_def initialData_def
        parseEvent_def)

section \<open>The pipeline\<close>

text \<open>
  C9. With the default steps the handler runs parseEvent, transformRecipients,
  fetchMessage, processMessage and sendMessage in this order, each on the bundle the step
  before returned; the first step that fails ends the run with its error and no later
  step runs. So a run ends in one of four ways: a failure before any call; a failure of
  the fetch, with no send attempted; a rejected send after a successful fetch; or
  success, after a fetch that succeeded and a send that was accepted. A failure carries
  one error: that of the event validation, a \<open>TypeError\<close>, or the message of the fetch or
  of the send.
\<close>

theorem pipeline_linear:
  assumes "Option.bind ovr o_steps = None"
  shows
    "handler env ev ovr =
       (case parseEvent (initialData env ev ovr) of
          Inl e \<Rightarrow> (Failure e, [])
        | Inr d1 \<Rightarrow>
           (case transformRecipients d1 of
              Inl e \<Rightarrow> (Failure e, [])
            | Inr d2 \<Rightarrow>
               (case fetchMessage d2 of
                  (Inl e, t3) \<Rightarrow> (Failure e, t3)
                | (Inr d3, t3) \<Rightarrow>
                   (case processMessage d3 of
                      Inl e \<Rightarrow> (Failure e, t3)
                    | Inr d4 \<Rightarrow>
                       (case sendMessage d4 of
                          (Inl e, t5) \<Rightarrow> (Failure e, t3 @ t5)
                        | (Inr d5, t5) \<Rightarrow> (Success, t3 @ t5))))))
     \<and> ((\<exists>e. handler env ev ovr = (Failure e, []) \<and> (e = invalidEvent \<or> e = TypeError))
        \<or> (\<exists>p. handler env ev ovr
                 = (Failure (Error ''Error: Failed to load message body from S3.''),
                    [GetObject p])
               \<and> s3 (initialData env ev ovr) p = None)
        \<or> (\<exists>p q msg. handler env ev ovr
                 = (Failure (Error ''Error: Email sending failed.''),
                    [GetObject p, SendRawEmail q])
               \<and> s3 (initialData env ev ovr) p = Some msg
               \<and> ses (initialData env ev ovr) q = False)
        \<or> (\<exists>p q msg. handler env ev ovr = (Success, [GetObject p, SendRawEmail q])
               \<and> s3 (initialData env ev ovr) p = Some msg
               \<and> ses (initialData env ev ovr) q = True))"
  by (rule conjI [OF handler_unrolled [OF assms] handler_outcomes [OF assms]])

theorem pipeline_linear_witness:
  "handler blockedAws (Some janeEvent) None
     = (Failure (Error ''Error: Failed to load message body from S3.''),
        [GetObject \<lparr>Bucket = ''your-s3-bucket-name'', Key = ''emailsPrefix/m1''\<rparr>])
   \<and> s3 (initialData blockedAws (Some janeEvent) None)
        \<lparr>Bucket = ''your-s3-bucket-name'', Key = ''emailsPrefix/m1''\<rparr> = None"
proof -
  have dflt: "Option.bind (None :: overrides option) o_steps = None" by simp
  have run: "handler blockedAws (Some janeEvent) None
     = (Failure (Error ''Error: Failed to load message body from S3.''),
        [GetObject \<lparr>Bucket = ''your-s3-bucket-name'', Key = ''emailsPrefix/m1''\<rparr>])"
    by code_simp
  note T = pipeline_linear [OF dflt, where env = blockedAws and ev = "Some janeEvent"]
  have "s3 (initialData blockedAws (Some janeEvent) None)
          \<lparr>Bucket = ''your-s3-bucket-name'', Key = ''emailsPrefix/m1''\<rparr> = None"
    using T [THEN conjunct2] by (auto simp: run)
  with run show ?thesis by simp
qed

lemma forOf_no_match:
  "\<forall>e \<in> set rs. \<forall>k \<in> set (tiers (origEmailKey cfg e)). \<not> matches cfg k \<Longrightarrow>
     forOf cfg new rs = Inr new"
proof (induction rs)
  case Nil
  show ?case by simp
next
  case (Cons r rs)
  then have "find (matches cfg) (tiers (origEmailKey cfg r)) = None"
    by (simp add: find_None_iff)
  then have "resolveRecipient cfg new r = Inr new"
    by (simp add: resolveRecipient_tiers)
  with Cons show ?case by simp
qed

text \<open>
  When every lookup of the loop body is falsy for every recipient, the resolved list is
  empty and the run goes on: the message is fetched and, when the fetch succeeds,
  transformed and sent with an empty list of destinations.
\<close>

lemma no_match_sends_to_nobody:
  assumes dflt: "Option.bind ovr o_steps = None"
    and parse: "parseEvent (initialData env ev ovr) = Inr d1"
    and em: "email d1 = Some m"
    and rs: "recipients d1 = Some rs"
    and nomatch: "\<forall>e \<in> set rs.
                   \<forall>k \<in> set (tiers (origEmailKey (config (initialData env ev ovr)) e)).
                     \<not> matches (config (initialData env ev ovr)) k"
  shows
    "resolveRecipients (config (initialData env ev ovr)) rs = Inr []
     \<and> (case s3 (initialData env ev ovr)
               \<lparr>Bucket = emailBucket (config (initialData env ev ovr)),
                Key = emailKeyPrefix (config (initialData env ev ovr)) @ messageId m\<rparr> of
          None \<Rightarrow>
            handler env ev ovr =
              (Failure (Error ''Error: Failed to load message body from S3.''),
               [GetObject \<lparr>Bucket = emailBucket (config (initialData env ev ovr)),
                  Key = emailKeyPrefix (config (initialData env ev ovr)) @ messageId m\<rparr>])
        | Some msg \<Rightarrow>
            snd (handler env ev ovr) =
              [GetObject \<lparr>Bucket = emailBucket (config (initialData env ev ovr)),
                  Key = emailKeyPrefix (config (initialData env ev ovr)) @ messageId m\<rparr>,
               SendRawEmail
                 \<lparr>Destinations = Some [], Source = None,
                  RawMessage =
                    (case splitMessage msg of
                       (header, body) \<Rightarrow>
                         transformHeader (config (initialData env ev ovr)) None header @ body)\<rparr>])"
proof -
  let ?d0 = "initialData env ev ovr"
  let ?cfg = "config ?d0"
  have res: "resolveRecipients ?cfg rs = Inr []"
    unfolding resolveRecipients_def by (rule forOf_no_match [OF nomatch])
  from parseEvent_Inr [OF parse] obtain m' rs' where
    d1: "d1 = ?d0\<lparr>email := m', recipients := rs'\<rparr>" by blast
  have f1: "config d1 = ?cfg" "s3 d1 = s3 ?d0" "originalRecipient d1 = None"
    by (simp_all add: d1 initialData_def)
  define d2 where "d2 = d1\<lparr>originalRecipients := Some rs, recipients := Some []\<rparr>"
  have p2: "transformRecipients d1 = Inr d2"
    using res rs by (simp add: transformRecipients_def d2_def f1)
  have f2: "config d2 = ?cfg" "email d2 = Some m" "s3 d2 = s3 ?d0"
    "recipients d2 = Some []" "originalRecipient d2 = None"
    by (simp_all add: d2_def f1 em)
  show ?thesis
  proof (cases "s3 ?d0 \<lparr>Bucket = emailBucket ?cfg,
                          Key = emailKeyPrefix ?cfg @ messageId m\<rparr>")
    case None
    then have "fetchMessage d2 =
        (Inl (Error ''Error: Failed to load message body from S3.''),
         [GetObject \<lparr>Bucket = emailBucket ?cfg,
                     Key = emailKeyPrefix ?cfg @ messageId m\<rparr>])"
      by (simp add: fetchMessage_def f2 Let_def)
    with parse p2 None res show ?thesis
      by (simp add: handler_unrolled [OF dflt])
  next
    case (Some msg)
    define d3 where "d3 = d2\<lparr>emailData := Some msg\<rparr>"
    from Some have p3: "fetchMessage d2 =
        (Inr d3, [GetObject \<lparr>Bucket = emailBucket ?cfg,
                              Key = emailKeyPrefix ?cfg @ messageId m\<rparr>])"
      by (simp add: fetchMessage_def f2 Let_def d3_def)
    define raw where "raw = (case splitMessage msg of
        (header, body) \<Rightarrow> transformHeader ?cfg None header @ body)"
    define d4 where "d4 = d3\<lparr>emailData := Some raw\<rparr>"
    have "emailData d3 = Some msg" by (simp add: d3_def)
    from processMessage_Some [OF this]
    have p4: "processMessage d3 = Inr d4"
      by (simp add: d4_def raw_def d3_def f2)
    have "emailData d4 = Some raw" by (simp add: d4_def)
    from sendMessage_Some [OF this]
    have p5: "sendMessage d4 =
        (if ses d4 \<lparr>Destinations = Some [], Source = None, RawMessage = raw\<rparr>
         then Inr d4 else Inl (Error ''Error: Email sending failed.''),
         [SendRawEmail \<lparr>Destinations = Some [], Source = None, RawMessage = raw\<rparr>])"
      by (simp add: d4_def d3_def f2)
    have "snd (handler env ev ovr) =
        [GetObject \<lparr>Bucket = emailBucket ?cfg,
                     Key = emailKeyPrefix ?cfg @ messageId m\<rparr>,
         SendRawEmail \<lparr>Destinations = Some [], Source = None, RawMessage = raw\<rparr>]"
      by (simp add: handler_unrolled [OF dflt] parse p2 p3 p4 p5)
    with Some res show ?thesis
      by (simp add: raw_def)
  qed
qed

text \<open>
  C10. When no mapping tier matches any original recipient, transformRecipients is meant
  to produce an empty list without an error, and the run to go on to the fetch and the
  send. With an empty mapping this is what happens for \<open>info@example.com\<close>. For
  \<open>constructor@example.org\<close> no key of the mapping matches either, but the mailbox
  lookup finds \<open>Object.prototype.constructor\<close>, \<open>forEach\<close> on it throws, and the run ends
  at transformRecipients with \<open>TypeError\<close>, before any call to a service.
\<close>

theorem inherited_member_stops_run:
  "resolveRecipients (defaultConfig\<lparr>forwardMapping := Map.empty\<rparr>) [''info@example.com'']
     = Inr []
   \<and> resolveRecipients (defaultConfig\<lparr>forwardMapping := Map.empty\<rparr>)
       [''constructor@example.org''] = Inl TypeError
   \<and> handler janeAws (Some (sesEvent ''m1'' [''constructor@example.org''])) (Some noMapping)
     = (Failure TypeError, [])"
  by code_simp

end
